theory Spec2Isabelle
  imports Complex_Main "HOL-Library.AList"
begin

section \<open>Dual-provider orchestration engine: data model\<close>

text \<open>
  The engine of the server file: the class \<open>DualAPIClient\<close> (rate limiter and the two
  provider adapters) and the class \<open>DualAPIOrchestrator\<close> (agent registry, agent turns,
  collaboration loop). Mutable objects become an explicit \<open>state\<close> that every operation
  takes and returns; a thrown exception becomes the left injection of a sum. The two
  things the code reads from outside, the wall clock (\<open>Date.now()\<close>) and the network
  (\<open>fetch\<close>), are oracles of an environment: the k-th reading of the clock and the
  answer to the k-th request are arbitrary, so a theorem for every environment covers
  every timing and every behaviour of the providers.

  The operations run one at a time, as one \<open>async\<close> call does between its own \<open>await\<close>s;
  the interleaving of several calls in flight is not part of the model. JavaScript numbers
  that count or stamp time are integers, the temperature is a rational.
\<close>

subsection \<open>Messages and JSON values\<close>

record message =
  role :: string
  content :: string

text \<open>
  An element of a message array is a message or, where the code has put \<open>undefined\<close> (or
  \<open>null\<close>) into the array, \<open>None\<close>. The JSON values that occur in a request body and in
  caller options follow.
\<close>

datatype jv = JNull | JBool bool | JNum rat | JStr string | JMessages "message option list"

type_synonym obj = "(string \<times> jv) list"

text \<open>JavaScript truthiness, and \<open>a || d\<close> on a property that may be absent.\<close>

fun truthy :: "jv \<Rightarrow> bool" where
  "truthy JNull = False"
| "truthy (JBool b) = b"
| "truthy (JNum r) = (r \<noteq> 0)"
| "truthy (JStr s) = (s \<noteq> [])"
| "truthy (JMessages ms) = True"

definition js_or :: "jv option \<Rightarrow> jv \<Rightarrow> jv" where
  "js_or v d = (case v of None \<Rightarrow> d | Some x \<Rightarrow> if truthy x then x else d)"

text \<open>\<open>a || d\<close> on an optional string: \<open>undefined\<close> and the empty string are falsy.\<close>

definition str_or :: "string option \<Rightarrow> string \<Rightarrow> string" where
  "str_or v d = (case v of None \<Rightarrow> d | Some x \<Rightarrow> if x = [] then d else x)"

text \<open>Object spread \<open>{...base, ...options}\<close>: a key of \<open>options\<close> overrides the same key of \<open>base\<close>.\<close>

definition spread :: "obj \<Rightarrow> obj \<Rightarrow> obj" where
  "spread base options = AList.merge base options"

text \<open>\<open>Array.prototype.join\<close> on strings.\<close>

fun join :: "string \<Rightarrow> string list \<Rightarrow> string" where
  "join sep [] = []"
| "join sep [x] = x"
| "join sep (x # y # ys) = x @ sep @ join sep (y # ys)"

text \<open>\<open>xs.slice(-n)\<close> for \<open>n \<ge> 0\<close>: the last \<open>n\<close> elements; \<open>slice(-0)\<close> is \<open>slice(0)\<close>, the whole array.\<close>

definition slice_last :: "nat \<Rightarrow> 'a list \<Rightarrow> 'a list" where
  "slice_last n xs = (if n = 0 then xs else drop (length xs - n) xs)"

text \<open>Decimal rendering of a number inside a template string.\<close>

fun string_of_nat :: "nat \<Rightarrow> string" where
  "string_of_nat n =
     (if n < 10 then [''0123456789'' ! n]
      else string_of_nat (n div 10) @ [''0123456789'' ! (n mod 10)])"

declare string_of_nat.simps [simp del]

subsection \<open>Errors\<close>

text \<open>
  Everything thrown is an \<open>Error\<close> object, of which only the message is ever read. The
  errors that the code throws itself carry the message of the source; for those that the
  engine raises (a property read on \<open>undefined\<close>, a body that does not parse, a rejected
  \<open>fetch\<close>) the constructor tells the kind and the text is the one of V8 or of the
  transport.
\<close>

datatype error = Error string | TypeError string | SyntaxError string

fun message_of :: "error \<Rightarrow> string" where
  "message_of (Error m) = m"
| "message_of (TypeError m) = m"
| "message_of (SyntaxError m) = m"

subsection \<open>Transport\<close>

type_synonym usage = "(string \<times> int) list"

text \<open>
  What \<open>response.json()\<close> yields: a chat completion (the \<open>message\<close> of each of its
  \<open>choices\<close>, in order, \<open>None\<close> for a choice whose \<open>message\<close> is missing or \<open>null\<close>, and
  its \<open>usage\<close>), an Anthropic message (the texts of its \<open>content\<close> blocks and its
  \<open>usage\<close>), some other JSON value with neither a \<open>choices\<close> nor a \<open>content\<close> array, or a
  body that is not JSON at all (the promise rejects).
\<close>

datatype payload =
    ChatCompletion "message option list" usage
  | AnthropicMessage "string list" usage
  | OtherJson
  | InvalidJson

record response =
  ok :: bool
  status :: nat
  statusText :: string
  json :: payload

datatype fetch_result = Rejected string | Resolved response

record request =
  url :: string
  headers :: "(string \<times> string) list"
  body :: obj

record env =
  clock :: "nat \<Rightarrow> int"
  net :: "nat \<Rightarrow> request \<Rightarrow> fetch_result"

subsection \<open>State\<close>

record rate_window =
  requests :: int
  resetTime :: int
  limit :: int

record rate_limits =
  openai :: rate_window
  anthropic :: rate_window

text \<open>The counters of the global \<open>metrics\<close> object that the engine writes.\<close>

record metrics =
  openaiRequests :: nat
  anthropicRequests :: nat
  errors :: nat

record agent =
  agent_id :: string
  name :: string
  agent_role :: string
  provider :: string
  model :: string
  instructions :: string
  memory :: "message option list"
  created :: int

record state =
  openaiKey :: "string option"
  anthropicKey :: "string option"
  rateLimits :: rate_limits
  metrics :: metrics
  agents :: "string \<rightharpoonup> agent"
  ticks :: nat
  fetches :: nat

text \<open>\<open>Date.now()\<close>: the next reading of the clock.\<close>

definition Date_now :: "env \<Rightarrow> state \<Rightarrow> int \<times> state" where
  "Date_now E s = (clock E (ticks s), s\<lparr>ticks := Suc (ticks s)\<rparr>)"

text \<open>\<open>await fetch(...)\<close>: the answer of the network to the next request.\<close>

definition fetch :: "env \<Rightarrow> request \<Rightarrow> state \<Rightarrow> fetch_result \<times> state" where
  "fetch E rq s = (net E (fetches s) rq, s\<lparr>fetches := Suc (fetches s)\<rparr>)"

section \<open>DualAPIClient\<close>

text \<open>\<open>this.rateLimits[provider]\<close> and the write through that reference.\<close>

definition window_of :: "string \<Rightarrow> state \<Rightarrow> rate_window option" where
  "window_of p s =
     (if p = ''openai'' then Some (openai (rateLimits s))
      else if p = ''anthropic'' then Some (anthropic (rateLimits s))
      else None)"

definition set_window :: "string \<Rightarrow> rate_window \<Rightarrow> state \<Rightarrow> state" where
  "set_window p w s =
     (if p = ''openai'' then s\<lparr>rateLimits := (rateLimits s)\<lparr>openai := w\<rparr>\<rparr>
      else if p = ''anthropic'' then s\<lparr>rateLimits := (rateLimits s)\<lparr>anthropic := w\<rparr>\<rparr>
      else s)"

definition checkRateLimit :: "env \<Rightarrow> string \<Rightarrow> state \<Rightarrow> (error + bool) \<times> state" where
  "checkRateLimit E p s =
     (case window_of p s of
        None \<Rightarrow> (Inl (TypeError ''Cannot read properties of undefined (reading 'resetTime')''), s)
      | Some win \<Rightarrow>
          (case Date_now E s of (t1, s1) \<Rightarrow>
             if t1 > resetTime win then
               (case Date_now E s1 of (t2, s2) \<Rightarrow>
                  let win' = win\<lparr>requests := 0, resetTime := t2 + 60000\<rparr>
                  in (Inr (requests win' < limit win'), set_window p win' s2))
             else (Inr (requests win < limit win), s1)))"

definition openai_request :: "string \<Rightarrow> message option list \<Rightarrow> string \<Rightarrow> obj \<Rightarrow> request" where
  "openai_request key messages mdl options =
     \<lparr>url = ''https://api.openai.com/v1/chat/completions'',
      headers = [(''Authorization'', ''Bearer '' @ key),
                 (''Content-Type'', ''application/json'')],
      body = spread
        [(''model'', JStr mdl),
         (''messages'', JMessages messages),
         (''temperature'', js_or (map_of options ''temperature'') (JNum (7 / 10))),
         (''max_tokens'', js_or (map_of options ''maxTokens'') (JNum 2000))]
        options\<rparr>"

text \<open>What follows the \<open>await fetch\<close> of \<open>callOpenAI\<close>.\<close>

definition openai_reply :: "fetch_result \<Rightarrow> error + payload" where
  "openai_reply r =
     (case r of
        Rejected m \<Rightarrow> Inl (TypeError m)
      | Resolved rsp \<Rightarrow>
          if \<not> ok rsp then
            Inl (Error (''OpenAI API error: '' @ string_of_nat (status rsp) @ '' '' @ statusText rsp))
          else (case json rsp of
                  InvalidJson \<Rightarrow> Inl (SyntaxError ''Unexpected token in JSON'')
                | p \<Rightarrow> Inr p))"

text \<open>\<open>!this.openaiKey\<close> holds when the key is undefined or the empty string.\<close>

definition callOpenAI :: "env \<Rightarrow> message option list \<Rightarrow> string \<Rightarrow> obj \<Rightarrow> state \<Rightarrow> (error + payload) \<times> state" where
  "callOpenAI E messages mdl options s =
     (case openaiKey s of
        None \<Rightarrow> (Inl (Error ''OpenAI API key not configured''), s)
      | Some key \<Rightarrow>
          if key = [] then (Inl (Error ''OpenAI API key not configured''), s)
          else
            (case checkRateLimit E ''openai'' s of
               (Inl e, s1) \<Rightarrow> (Inl e, s1)
             | (Inr allowed, s1) \<Rightarrow>
                 if \<not> allowed then (Inl (Error ''OpenAI rate limit exceeded''), s1)
                 else
                   let w = openai (rateLimits s1);
                       s2 = s1\<lparr>rateLimits := (rateLimits s1)\<lparr>openai := w\<lparr>requests := requests w + 1\<rparr>\<rparr>\<rparr>;
                       s3 = s2\<lparr>metrics := (metrics s2)\<lparr>openaiRequests := Suc (openaiRequests (metrics s2))\<rparr>\<rparr>
                   in (case fetch E (openai_request key messages mdl options) s3 of
                         (r, s4) \<Rightarrow> (openai_reply r, s4))))"

text \<open>
  The request of \<open>callAnthropic\<close>, for a message array all of whose elements are
  messages: the two \<open>filter\<close> calls and the body.
\<close>

definition anthropic_request :: "string \<Rightarrow> message list \<Rightarrow> string \<Rightarrow> obj \<Rightarrow> request" where
  "anthropic_request key messages mdl options =
     (let systemMessages = filter (\<lambda>m. role m = ''system'') messages;
          conversationMessages = filter (\<lambda>m. role m \<noteq> ''system'') messages
      in \<lparr>url = ''https://api.anthropic.com/v1/messages'',
          headers = [(''x-api-key'', key),
                     (''Content-Type'', ''application/json''),
                     (''anthropic-version'', ''2023-06-01'')],
          body = spread
            [(''model'', JStr mdl),
             (''max_tokens'', js_or (map_of options ''maxTokens'') (JNum 2000)),
             (''temperature'', js_or (map_of options ''temperature'') (JNum (7 / 10))),
             (''system'', JStr (join [CHR 0x0A] (map content systemMessages))),
             (''messages'', JMessages (map Some conversationMessages))]
            options\<rparr>)"

text \<open>
  What follows the \<open>await fetch\<close> of \<open>callAnthropic\<close>: the reply is converted to the
  shape of a chat completion, \<open>result.content[0].text\<close> becoming the content of the one
  choice.
\<close>

definition anthropic_reply :: "fetch_result \<Rightarrow> error + payload" where
  "anthropic_reply r =
     (case r of
        Rejected m \<Rightarrow> Inl (TypeError m)
      | Resolved rsp \<Rightarrow>
          if \<not> ok rsp then
            Inl (Error (''Anthropic API error: '' @ string_of_nat (status rsp) @ '' '' @ statusText rsp))
          else (case json rsp of
                  InvalidJson \<Rightarrow> Inl (SyntaxError ''Unexpected token in JSON'')
                | AnthropicMessage (t # ts) u \<Rightarrow>
                    Inr (ChatCompletion [Some \<lparr>role = ''assistant'', content = t\<rparr>] u)
                | AnthropicMessage [] u \<Rightarrow>
                    Inl (TypeError ''Cannot read properties of undefined (reading 'text')'')
                | _ \<Rightarrow> Inl (TypeError ''Cannot read properties of undefined (reading '0')'')))"

text \<open>
  The first \<open>filter\<close> reads \<open>m.role\<close> of every element and throws on an element that is
  \<open>undefined\<close>, after the two counters have been incremented and before any request.
\<close>

definition callAnthropic :: "env \<Rightarrow> message option list \<Rightarrow> string \<Rightarrow> obj \<Rightarrow> state \<Rightarrow> (error + payload) \<times> state" where
  "callAnthropic E messages mdl options s =
     (case anthropicKey s of
        None \<Rightarrow> (Inl (Error ''Anthropic API key not configured''), s)
      | Some key \<Rightarrow>
          if key = [] then (Inl (Error ''Anthropic API key not configured''), s)
          else
            (case checkRateLimit E ''anthropic'' s of
               (Inl e, s1) \<Rightarrow> (Inl e, s1)
             | (Inr allowed, s1) \<Rightarrow>
                 if \<not> allowed then (Inl (Error ''Anthropic rate limit exceeded''), s1)
                 else
                   let w = anthropic (rateLimits s1);
                       s2 = s1\<lparr>rateLimits := (rateLimits s1)\<lparr>anthropic := w\<lparr>requests := requests w + 1\<rparr>\<rparr>\<rparr>;
                       s3 = s2\<lparr>metrics := (metrics s2)\<lparr>anthropicRequests := Suc (anthropicRequests (metrics s2))\<rparr>\<rparr>
                   in (case those messages of
                         None \<Rightarrow>
                           (Inl (TypeError ''Cannot read properties of undefined (reading 'role')''), s3)
                       | Some ms \<Rightarrow>
                           (case fetch E (anthropic_request key ms mdl options) s3 of
                              (r, s4) \<Rightarrow> (anthropic_reply r, s4)))))"

text \<open>The \<open>catch\<close> of \<open>callAPI\<close> counts the error and throws it again.\<close>

definition callAPI :: "env \<Rightarrow> string \<Rightarrow> message option list \<Rightarrow> string \<Rightarrow> obj \<Rightarrow> state \<Rightarrow> (error + payload) \<times> state" where
  "callAPI E prov messages mdl options s =
     (case (if prov = ''openai'' then callOpenAI E messages mdl options s
            else if prov = ''anthropic'' then callAnthropic E messages mdl options s
            else (Inl (Error (''Unsupported provider: '' @ prov)), s)) of
        (Inl e, s1) \<Rightarrow> (Inl e, s1\<lparr>metrics := (metrics s1)\<lparr>errors := Suc (errors (metrics s1))\<rparr>\<rparr>)
      | (Inr p, s1) \<Rightarrow> (Inr p, s1))"

section \<open>DualAPIOrchestrator\<close>

subsection \<open>Agents\<close>

text \<open>The fields of \<open>config\<close> that \<open>createAgent\<close> reads; each may be absent.\<close>

record config =
  cfg_name :: "string option"
  cfg_role :: "string option"
  cfg_provider :: "string option"
  cfg_model :: "string option"
  cfg_instructions :: "string option"

text \<open>The identifier that \<open>uuidv4()\<close> draws is the parameter \<open>uid\<close>.\<close>

definition createAgent :: "env \<Rightarrow> string \<Rightarrow> config \<Rightarrow> state \<Rightarrow> agent \<times> state" where
  "createAgent E uid cfg s =
     (case Date_now E s of (t, s1) \<Rightarrow>
        let a = \<lparr>agent_id = uid,
                 name = str_or (cfg_name cfg) ''Agent'',
                 agent_role = str_or (cfg_role cfg) ''Assistant'',
                 provider = str_or (cfg_provider cfg) ''openai'',
                 model = str_or (cfg_model cfg)
                           (if cfg_provider cfg = Some ''anthropic''
                            then ''claude-3-5-sonnet-20241022'' else ''gpt-4''),
                 instructions = str_or (cfg_instructions cfg) ''You are a helpful AI assistant.'',
                 memory = [],
                 created = t\<rparr>
        in (a, s1\<lparr>agents := (agents s1)(agent_id a \<mapsto> a)\<rparr>))"

record agent_summary =
  sum_id :: string
  sum_name :: string
  sum_role :: string
  sum_provider :: string

record exec_result =
  res_agent :: agent_summary
  res_response :: string
  res_usage :: usage

text \<open>
  The memory update of \<open>executeAgent\<close>: the user message and \<open>assistantMessage\<close>, whatever
  it is, are pushed, then the memory is cut to its last 20 entries when it is longer.
\<close>

definition update_memory :: "message option list \<Rightarrow> string \<Rightarrow> message option \<Rightarrow> message option list" where
  "update_memory mem msg assistantMessage =
     (let mem' = mem @ [Some \<lparr>role = ''user'', content = msg\<rparr>, assistantMessage]
      in if length mem' > 20 then slice_last 20 mem' else mem')"

text \<open>
  \<open>response.choices[0].message\<close>, together with \<open>response.usage\<close>: reading \<open>message\<close>
  of a choice that has none yields \<open>undefined\<close> and does not throw.
\<close>

definition first_choice :: "payload \<Rightarrow> error + message option \<times> usage" where
  "first_choice p =
     (case p of
        ChatCompletion (m # ms) u \<Rightarrow> Inr (m, u)
      | ChatCompletion [] u \<Rightarrow>
          Inl (TypeError ''Cannot read properties of undefined (reading 'message')'')
      | _ \<Rightarrow> Inl (TypeError ''Cannot read properties of undefined (reading '0')''))"

text \<open>
  The third parameter is \<open>context.options\<close>, which may be absent. The memory is updated
  as soon as \<open>assistantMessage\<close> has been read; the result is built after that, and
  building it reads \<open>assistantMessage.content\<close>, which throws when the first choice had no
  message: then the call fails with the memory already changed.
\<close>

definition executeAgent :: "env \<Rightarrow> string \<Rightarrow> string \<Rightarrow> obj option \<Rightarrow> state \<Rightarrow> (error + exec_result) \<times> state" where
  "executeAgent E agentId msg ctx_options s =
     (case agents s agentId of
        None \<Rightarrow> (Inl (Error ''Agent not found''), s)
      | Some a \<Rightarrow>
          let messages = Some \<lparr>role = ''system'', content = instructions a\<rparr> # memory a
                           @ [Some \<lparr>role = ''user'', content = msg\<rparr>]
          in (case callAPI E (provider a) messages (model a)
                     (case ctx_options of None \<Rightarrow> [] | Some opts \<Rightarrow> opts) s of
                (Inl e, s1) \<Rightarrow> (Inl e, s1)
              | (Inr rsp, s1) \<Rightarrow>
                  (case first_choice rsp of
                     Inl e \<Rightarrow> (Inl e, s1)
                   | Inr (assistantMessage, u) \<Rightarrow>
                       let a' = a\<lparr>memory := update_memory (memory a) msg assistantMessage\<rparr>;
                           s2 = s1\<lparr>agents := (agents s1)(agentId \<mapsto> a')\<rparr>
                       in (case assistantMessage of
                             None \<Rightarrow>
                               (Inl (TypeError ''Cannot read properties of undefined (reading 'content')''),
                                s2)
                           | Some m \<Rightarrow>
                               (Inr \<lparr>res_agent = \<lparr>sum_id = agent_id a', sum_name = name a',
                                                     sum_role = agent_role a',
                                                     sum_provider = provider a'\<rparr>,
                                      res_response = content m,
                                      res_usage = u\<rparr>,
                                s2)))))"

subsection \<open>Collaboration\<close>

text \<open>
  An entry of \<open>collaboration.conversation\<close>: the success entry spreads the result of
  \<open>executeAgent\<close> (agent summary, response, usage); the error entry carries the agent id
  and the error message, and has neither \<open>agent.name\<close> nor \<open>response\<close>.
\<close>

datatype outcome = Responded agent_summary string usage | Failed string string

record turn =
  iteration :: int
  timestamp :: int
  outcome :: outcome

record collaboration =
  collab_id :: string
  goal :: string
  collab_agents :: "string list"
  conversation :: "turn list"
  started :: int
  completed :: "int option"

text \<open>
  The template \<open>`${r.agent.name}: ${r.response}`\<close>: a property that an entry does not
  have renders as \<open>undefined\<close>.
\<close>

definition turn_line :: "turn \<Rightarrow> string" where
  "turn_line r =
     (case outcome r of
        Responded a rsp u \<Rightarrow> sum_name a @ '': '' @ rsp
      | Failed aid m \<Rightarrow> ''undefined'' @ '': '' @ ''undefined'')"

definition initial_message :: "string \<Rightarrow> string" where
  "initial_message g =
     ''Goal: '' @ g @ [CHR 0x0A, CHR 0x0A]
       @ ''Let's work together to achieve this goal. Please provide your initial thoughts and approach.''"

definition next_message :: "string list \<Rightarrow> turn list \<Rightarrow> string" where
  "next_message agentIds conv =
     ''Previous responses:'' @ [CHR 0x0A]
       @ join [CHR 0x0A, CHR 0x0A] (map turn_line (slice_last (length agentIds) conv))
       @ [CHR 0x0A, CHR 0x0A]
       @ ''Please build upon these ideas and continue working toward our goal.''"

text \<open>
  The body of the inner loop, on the triple of the conversation so far, the current
  message and the state: the \<open>try\<close> block and its \<open>catch\<close>.
\<close>

definition collab_turn :: "env \<Rightarrow> int \<Rightarrow> string list \<Rightarrow> string \<Rightarrow> turn list \<times> string \<times> state \<Rightarrow> turn list \<times> string \<times> state" where
  "collab_turn E i agentIds agentId st =
     (case st of (conv, currentMessage, s) \<Rightarrow>
        (case executeAgent E agentId currentMessage None s of
           (Inr result, s1) \<Rightarrow>
             (case Date_now E s1 of (t, s2) \<Rightarrow>
                let conv' = conv @ [\<lparr>iteration = i + 1, timestamp = t,
                                     outcome = Responded (res_agent result) (res_response result)
                                                 (res_usage result)\<rparr>]
                in (conv', next_message agentIds conv', s2))
         | (Inl e, s1) \<Rightarrow>
             (case Date_now E s1 of (t, s2) \<Rightarrow>
                (conv @ [\<lparr>iteration = i + 1, timestamp = t,
                          outcome = Failed agentId (message_of e)\<rparr>],
                 currentMessage, s2))))"

text \<open>\<open>for (const agentId of agentIds)\<close>, on the agents that are still to come.\<close>

fun collab_round :: "env \<Rightarrow> int \<Rightarrow> string list \<Rightarrow> string list \<Rightarrow> turn list \<times> string \<times> state \<Rightarrow> turn list \<times> string \<times> state" where
  "collab_round E i agentIds [] st = st"
| "collab_round E i agentIds (agentId # rest) st =
     collab_round E i agentIds rest (collab_turn E i agentIds agentId st)"

text \<open>\<open>for (let i = 0; i < iterations; i++)\<close>, from the index \<open>i\<close> on.\<close>

function collab_loop :: "env \<Rightarrow> string list \<Rightarrow> int \<Rightarrow> int \<Rightarrow> turn list \<times> string \<times> state \<Rightarrow> turn list \<times> string \<times> state" where
  "collab_loop E agentIds iterations i st =
     (if i < iterations
      then collab_loop E agentIds iterations (i + 1) (collab_round E i agentIds agentIds st)
      else st)"
  by pat_completeness auto
termination
  by (relation "measure (\<lambda>(E, agentIds, iterations, i, st). nat (iterations - i))") auto

declare collab_loop.simps [simp del]

definition collaborateAgents :: "env \<Rightarrow> string \<Rightarrow> string list \<Rightarrow> string \<Rightarrow> int \<Rightarrow> state \<Rightarrow> collaboration \<times> state" where
  "collaborateAgents E uid agentIds g iterations s =
     (case Date_now E s of (t0, s0) \<Rightarrow>
        let c = \<lparr>collab_id = uid, goal = g, collab_agents = agentIds, conversation = [],
                 started = t0, completed = None\<rparr>
        in (case collab_loop E agentIds iterations 0 (conversation c, initial_message g, s0) of
              (conv, currentMessage, s1) \<Rightarrow>
                (case Date_now E s1 of (t1, s2) \<Rightarrow>
                   (c\<lparr>conversation := conv, completed := Some t1\<rparr>, s2))))"

section \<open>An example deployment\<close>

text \<open>
  A concrete environment and state on which the theorems below are instantiated: the
  OpenAI endpoint answers every request with a completion, every other endpoint answers
  529; three agents are registered, the second one on the Anthropic provider.
\<close>

definition demo_net :: "nat \<Rightarrow> request \<Rightarrow> fetch_result" where
  "demo_net k rq =
     (if url rq = ''https://api.openai.com/v1/chat/completions''
      then Resolved \<lparr>ok = True, status = 200, statusText = ''OK'',
                     json = ChatCompletion [Some \<lparr>role = ''assistant'', content = ''fine''\<rparr>]
                              [(''total_tokens'', 7)]\<rparr>
      else Resolved \<lparr>ok = False, status = 529, statusText = ''Overloaded'', json = OtherJson\<rparr>)"

definition demo_env :: env where
  "demo_env = \<lparr>clock = (\<lambda>k. 1000 + int k), net = demo_net\<rparr>"

definition late_env :: env where
  "late_env = \<lparr>clock = (\<lambda>k. 100000 + int k), net = demo_net\<rparr>"

definition demo_agent :: "string \<Rightarrow> string \<Rightarrow> string \<Rightarrow> agent" where
  "demo_agent i n p =
     \<lparr>agent_id = i, name = n, agent_role = ''Assistant'', provider = p,
      model = (if p = ''anthropic'' then ''claude-3-5-sonnet-20241022'' else ''gpt-4''),
      instructions = ''You are a helpful AI assistant.'', memory = [], created = 0\<rparr>"

definition demo_window :: "int \<Rightarrow> rate_window" where
  "demo_window l = \<lparr>requests = 0, resetTime = 60000, limit = l\<rparr>"

definition demo_state :: "int \<Rightarrow> state" where
  "demo_state l =
     \<lparr>openaiKey = Some ''sk-test'', anthropicKey = Some ''sk-ant-test'',
      rateLimits = \<lparr>openai = demo_window l, anthropic = demo_window l\<rparr>,
      metrics = \<lparr>openaiRequests = 0, anthropicRequests = 0, errors = 0\<rparr>,
      agents = [''a1'' \<mapsto> demo_agent ''a1'' ''Ada'' ''openai'',
                ''a2'' \<mapsto> demo_agent ''a2'' ''Bob'' ''anthropic'',
                ''a3'' \<mapsto> demo_agent ''a3'' ''Cy'' ''openai''],
      ticks = 0, fetches = 0\<rparr>"


text \<open>
  A second environment, in which both endpoints are the same echo service: the reply
  text is the system prompt received (the \<open>system\<close> field of an Anthropic request, the
  contents of the \<open>system\<close> messages of an OpenAI request, joined by newlines), and the
  usage counts the other messages received.
\<close>

definition echo_net :: "nat \<Rightarrow> request \<Rightarrow> fetch_result" where
  "echo_net k rq =
     (if url rq = ''https://api.openai.com/v1/chat/completions''
      then (case map_of (body rq) ''messages'' of
              Some (JMessages ms) \<Rightarrow>
                Resolved \<lparr>ok = True, status = 200, statusText = ''OK'',
                  json = ChatCompletion
                    [Some \<lparr>role = ''assistant'',
                           content = join [CHR 0x0A]
                             (map content (filter (\<lambda>m. role m = ''system'') (List.map_filter id ms)))\<rparr>]
                    [(''received'',
                      int (length (filter (\<lambda>m. role m \<noteq> ''system'') (List.map_filter id ms))))]\<rparr>
            | _ \<Rightarrow> Resolved \<lparr>ok = False, status = 400, statusText = ''Bad Request'', json = OtherJson\<rparr>)
      else (case (map_of (body rq) ''system'', map_of (body rq) ''messages'') of
              (Some (JStr t), Some (JMessages ms)) \<Rightarrow>
                Resolved \<lparr>ok = True, status = 200, statusText = ''OK'',
                  json = AnthropicMessage [t] [(''received'', int (length ms))]\<rparr>
            | _ \<Rightarrow> Resolved \<lparr>ok = False, status = 400, statusText = ''Bad Request'', json = OtherJson\<rparr>))"

definition echo_env :: env where
  "echo_env = \<lparr>clock = (\<lambda>k. 1000 + int k), net = echo_net\<rparr>"

definition sample_messages :: "message list" where
  "sample_messages =
     [\<lparr>role = ''system'', content = ''Be brief.''\<rparr>, \<lparr>role = ''user'', content = ''hi''\<rparr>,
      \<lparr>role = ''system'', content = ''Be kind.''\<rparr>, \<lparr>role = ''assistant'', content = ''yo''\<rparr>]"

definition override_options :: obj where
  "override_options = [(''system'', JStr ''Shout.'')]"



section \<open>Properties\<close>

lemmas demo_defs = demo_state_def demo_env_def late_env_def demo_net_def demo_window_def
  demo_agent_def

subsection \<open>The rate limiter on the two windows\<close>

lemma checkRateLimit_openai:
  "checkRateLimit E ''openai'' s =
     (let w = openai (rateLimits s) in
      if clock E (ticks s) > resetTime w
      then (Inr (0 < limit w),
            s\<lparr>ticks := Suc (Suc (ticks s)),
              rateLimits := (rateLimits s)\<lparr>openai := w\<lparr>requests := 0,
                 resetTime := clock E (Suc (ticks s)) + 60000\<rparr>\<rparr>\<rparr>)
      else (Inr (requests w < limit w), s\<lparr>ticks := Suc (ticks s)\<rparr>))"
  by (simp add: checkRateLimit_def window_of_def set_window_def Date_now_def Let_def)

lemma checkRateLimit_anthropic:
  "checkRateLimit E ''anthropic'' s =
     (let w = anthropic (rateLimits s) in
      if clock E (ticks s) > resetTime w
      then (Inr (0 < limit w),
            s\<lparr>ticks := Suc (Suc (ticks s)),
              rateLimits := (rateLimits s)\<lparr>anthropic := w\<lparr>requests := 0,
                 resetTime := clock E (Suc (ticks s)) + 60000\<rparr>\<rparr>\<rparr>)
      else (Inr (requests w < limit w), s\<lparr>ticks := Suc (ticks s)\<rparr>))"
  by (simp add: checkRateLimit_def window_of_def set_window_def Date_now_def Let_def)

lemma openai_reply_not_limit: "openai_reply r \<noteq> Inl (Error ''OpenAI rate limit exceeded'')"
  by (auto simp: openai_reply_def split: fetch_result.splits payload.splits)

lemma anthropic_reply_not_limit: "anthropic_reply r \<noteq> Inl (Error ''Anthropic rate limit exceeded'')"
  by (auto simp: anthropic_reply_def split: fetch_result.splits payload.splits list.splits)

text \<open>
  Claim C3. Check and reserve, as the adapters do it (\<open>checkRateLimit\<close>, then the
  increment): for a provider whose credential is configured, the limiter first resets an
  expired window (count 0, reset time 60000 ms after the clock reading taken then); it
  admits the call iff the count of the window is then below its limit. An admitted call
  increments the count of that window by one; a denied call fails with the rate limit error and
  changes nothing after the check, and when the limit is positive a denied call leaves
  both windows as they were before the call. The window of the other provider is never
  touched.
\<close>

theorem rate_limiter_check_and_reserve:
  "(openaiKey s = Some key \<and> key \<noteq> [] \<longrightarrow>
     (case checkRateLimit E ''openai'' s of (a, s1) \<Rightarrow>
      case callOpenAI E ms mdl opts s of (r, s') \<Rightarrow>
        openai (rateLimits s1) =
          (if clock E (ticks s) > resetTime (openai (rateLimits s))
           then (openai (rateLimits s))\<lparr>requests := 0,
                  resetTime := clock E (Suc (ticks s)) + 60000\<rparr>
           else openai (rateLimits s))
      \<and> anthropic (rateLimits s1) = anthropic (rateLimits s)
      \<and> a = Inr (requests (openai (rateLimits s1)) < limit (openai (rateLimits s1)))
      \<and> (r = Inl (Error ''OpenAI rate limit exceeded'') \<longleftrightarrow> a = Inr False)
      \<and> (a = Inr True \<longrightarrow>
            rateLimits s' = (rateLimits s1)\<lparr>openai := (openai (rateLimits s1))
              \<lparr>requests := requests (openai (rateLimits s1)) + 1\<rparr>\<rparr>)
      \<and> (a = Inr False \<longrightarrow> s' = s1)
      \<and> (a = Inr False \<and> 0 < limit (openai (rateLimits s)) \<longrightarrow> rateLimits s' = rateLimits s)))
 \<and> (anthropicKey s = Some key \<and> key \<noteq> [] \<longrightarrow>
     (case checkRateLimit E ''anthropic'' s of (a, s1) \<Rightarrow>
      case callAnthropic E ms mdl opts s of (r, s') \<Rightarrow>
        anthropic (rateLimits s1) =
          (if clock E (ticks s) > resetTime (anthropic (rateLimits s))
           then (anthropic (rateLimits s))\<lparr>requests := 0,
                  resetTime := clock E (Suc (ticks s)) + 60000\<rparr>
           else anthropic (rateLimits s))
      \<and> openai (rateLimits s1) = openai (rateLimits s)
      \<and> a = Inr (requests (anthropic (rateLimits s1)) < limit (anthropic (rateLimits s1)))
      \<and> (r = Inl (Error ''Anthropic rate limit exceeded'') \<longleftrightarrow> a = Inr False)
      \<and> (a = Inr True \<longrightarrow>
            rateLimits s' = (rateLimits s1)\<lparr>anthropic := (anthropic (rateLimits s1))
              \<lparr>requests := requests (anthropic (rateLimits s1)) + 1\<rparr>\<rparr>)
      \<and> (a = Inr False \<longrightarrow> s' = s1)
      \<and> (a = Inr False \<and> 0 < limit (anthropic (rateLimits s)) \<longrightarrow> rateLimits s' = rateLimits s)))"
  by (auto simp: callOpenAI_def callAnthropic_def checkRateLimit_openai checkRateLimit_anthropic
                 fetch_def Let_def openai_reply_not_limit anthropic_reply_not_limit
           split: prod.splits option.splits)

text \<open>
  With a limit of 1 in the example state: the first call is admitted and takes the only
  slot, a second call at once is denied and leaves the windows as they are, and a call
  after the reset time is admitted again, in a fresh window.
\<close>

theorem rate_limiter_witness:
  "(openaiKey (demo_state 1) = Some ''sk-test'' \<and> ''sk-test'' \<noteq> [])
   \<and> fst (checkRateLimit demo_env ''openai'' (demo_state 1)) = Inr True
   \<and> openai (rateLimits (snd (callOpenAI demo_env [] ''gpt-4'' [] (demo_state 1))))
       = \<lparr>requests = 1, resetTime = 60000, limit = 1\<rparr>
   \<and> fst (callOpenAI demo_env [] ''gpt-4'' []
            (snd (callOpenAI demo_env [] ''gpt-4'' [] (demo_state 1))))
       = Inl (Error ''OpenAI rate limit exceeded'')
   \<and> rateLimits (snd (callOpenAI demo_env [] ''gpt-4'' []
            (snd (callOpenAI demo_env [] ''gpt-4'' [] (demo_state 1)))))
       = rateLimits (snd (callOpenAI demo_env [] ''gpt-4'' [] (demo_state 1)))
   \<and> fst (checkRateLimit late_env ''openai''
            (snd (callOpenAI demo_env [] ''gpt-4'' []
               (snd (callOpenAI demo_env [] ''gpt-4'' [] (demo_state 1))))))
       = Inr True
   \<and> openai (rateLimits (snd (callOpenAI late_env [] ''gpt-4'' []
            (snd (callOpenAI demo_env [] ''gpt-4'' []
               (snd (callOpenAI demo_env [] ''gpt-4'' [] (demo_state 1))))))))
       = \<lparr>requests = 1, resetTime = 160003, limit = 1\<rparr>"
proof -
  have h: "openaiKey (demo_state 1) = Some ''sk-test'' \<and> ''sk-test'' \<noteq> []"
    by (simp add: demo_state_def)
  show ?thesis
    using h rate_limiter_check_and_reserve
              [of "demo_state 1" "''sk-test''" demo_env "[]" "''gpt-4''" "[]"]
    by (simp add: demo_defs callOpenAI_def checkRateLimit_openai fetch_def openai_reply_def
                  openai_request_def Let_def)
qed

subsection \<open>Missing credentials\<close>

text \<open>
  Claim C9. When the credential of a provider is not configured (undefined or empty), its
  adapter fails with the configuration error and returns the state it was given: the
  rate limiter has not been consulted (no clock reading, no change of either window), no
  request has been sent, and the request counters are unchanged. Through \<open>callAPI\<close> the
  only change is the global error counter.
\<close>

theorem missing_credential_short_circuits:
  "(openaiKey s = None \<or> openaiKey s = Some [] \<longrightarrow>
      callOpenAI E ms mdl opts s = (Inl (Error ''OpenAI API key not configured''), s)
    \<and> callAPI E ''openai'' ms mdl opts s =
        (Inl (Error ''OpenAI API key not configured''),
         s\<lparr>metrics := (metrics s)\<lparr>errors := Suc (errors (metrics s))\<rparr>\<rparr>))
 \<and> (anthropicKey s = None \<or> anthropicKey s = Some [] \<longrightarrow>
      callAnthropic E ms mdl opts s = (Inl (Error ''Anthropic API key not configured''), s)
    \<and> callAPI E ''anthropic'' ms mdl opts s =
        (Inl (Error ''Anthropic API key not configured''),
         s\<lparr>metrics := (metrics s)\<lparr>errors := Suc (errors (metrics s))\<rparr>\<rparr>))"
  by (auto simp: callAPI_def callOpenAI_def callAnthropic_def)

theorem missing_credential_witness:
  "(openaiKey ((demo_state 60)\<lparr>openaiKey := Some [], anthropicKey := None\<rparr>) = Some []
    \<and> anthropicKey ((demo_state 60)\<lparr>openaiKey := Some [], anthropicKey := None\<rparr>) = None)
   \<and> rateLimits (snd (callOpenAI demo_env [] ''gpt-4'' []
         ((demo_state 60)\<lparr>openaiKey := Some [], anthropicKey := None\<rparr>))) = rateLimits (demo_state 60)
   \<and> metrics (snd (callAnthropic demo_env [] ''claude-3-5-sonnet-20241022'' []
         ((demo_state 60)\<lparr>openaiKey := Some [], anthropicKey := None\<rparr>))) = metrics (demo_state 60)
   \<and> fetches (snd (callAPI demo_env ''anthropic'' [] ''claude-3-5-sonnet-20241022'' []
         ((demo_state 60)\<lparr>openaiKey := Some [], anthropicKey := None\<rparr>))) = 0"
proof -
  let ?s = "(demo_state 60)\<lparr>openaiKey := Some [], anthropicKey := None\<rparr>"
  have h: "openaiKey ?s = Some []" "anthropicKey ?s = None" by simp_all
  show ?thesis
    using h missing_credential_short_circuits [of ?s demo_env "[]" "''gpt-4''" "[]"]
      missing_credential_short_circuits [of ?s demo_env "[]" "''claude-3-5-sonnet-20241022''" "[]"]
    by (simp add: demo_state_def)
qed

subsection \<open>The collaboration loop\<close>

lemma collab_loop_no_agents: "collab_loop E [] iterations i st = st"
  by (induction E "[]::string list" iterations i st rule: collab_loop.induct)
     (simp add: collab_loop.simps)

text \<open>
  Claim C10. With an empty list of participants \<open>collaborateAgents\<close> does not fail, for
  every goal and every number of iterations: it returns a run without a single turn and
  with its completion timestamp set, having only read the clock twice.
\<close>

theorem collaborate_empty_participants:
  "collaborateAgents E uid [] g iterations s =
     (\<lparr>collab_id = uid, goal = g, collab_agents = [], conversation = [],
       started = clock E (ticks s), completed = Some (clock E (Suc (ticks s)))\<rparr>,
      s\<lparr>ticks := Suc (Suc (ticks s))\<rparr>)"
  by (simp add: collaborateAgents_def Date_now_def collab_loop_no_agents)

subsection \<open>Request counters\<close>

text \<open>
  Claim C7, as the code has it. The adapter increments the request counter of its provider
  right after the rate limiter has admitted the call and before the request is sent: the
  counter grows by one exactly when the credential is configured and the limiter admits
  the call, whatever the network answers afterwards, and the other provider's counter
  never moves. It counts the requests issued, not the successful calls.
\<close>

theorem request_counter_counts_issued_requests:
  "openaiRequests (metrics (snd (callOpenAI E ms mdl opts s)))
     = openaiRequests (metrics s)
       + (if openaiKey s \<notin> {None, Some []} \<and> fst (checkRateLimit E ''openai'' s) = Inr True
          then 1 else 0)
   \<and> anthropicRequests (metrics (snd (callOpenAI E ms mdl opts s))) = anthropicRequests (metrics s)
   \<and> anthropicRequests (metrics (snd (callAnthropic E ms mdl opts s)))
     = anthropicRequests (metrics s)
       + (if anthropicKey s \<notin> {None, Some []} \<and> fst (checkRateLimit E ''anthropic'' s) = Inr True
          then 1 else 0)
   \<and> openaiRequests (metrics (snd (callAnthropic E ms mdl opts s))) = openaiRequests (metrics s)"
  by (auto simp: callOpenAI_def callAnthropic_def checkRateLimit_openai checkRateLimit_anthropic
                 fetch_def Let_def split: option.splits)

text \<open>
  The claim as stated (a call with a non-success response does not increment the counter)
  fails: the Anthropic endpoint of the example answers 529, the call fails with the
  provider error, and the counter has grown by one.
\<close>

theorem request_counter_counterexample:
  "fst (callAnthropic demo_env [] ''claude-3-5-sonnet-20241022'' [] (demo_state 60))
     = Inl (Error ''Anthropic API error: 529 Overloaded'')
   \<and> anthropicRequests (metrics (snd (callAnthropic demo_env [] ''claude-3-5-sonnet-20241022'' []
        (demo_state 60))))
     = Suc (anthropicRequests (metrics (demo_state 60)))"
  by (simp add: demo_defs callAnthropic_def checkRateLimit_anthropic fetch_def anthropic_reply_def
                anthropic_request_def Let_def string_of_nat.simps)

subsection \<open>Agent creation\<close>



subsection \<open>The agent turn\<close>

lemma checkRateLimit_agents:
  "checkRateLimit E p s = (r, s') \<Longrightarrow> agents s' = agents s"
  by (auto simp: checkRateLimit_def window_of_def set_window_def Date_now_def Let_def
           split: option.splits if_splits prod.splits)

lemma callOpenAI_agents:
  "callOpenAI E ms mdl opts s = (r, s') \<Longrightarrow> agents s' = agents s"
  by (auto simp: callOpenAI_def fetch_def Let_def dest!: checkRateLimit_agents
           split: option.splits if_splits prod.splits sum.splits)

lemma callAnthropic_agents:
  "callAnthropic E ms mdl opts s = (r, s') \<Longrightarrow> agents s' = agents s"
  by (auto simp: callAnthropic_def fetch_def Let_def dest!: checkRateLimit_agents
           split: option.splits if_splits prod.splits sum.splits)

lemma callAPI_agents:
  "callAPI E p ms mdl opts s = (r, s') \<Longrightarrow> agents s' = agents s"
  by (auto simp: callAPI_def dest!: callOpenAI_agents callAnthropic_agents
           split: if_splits prod.splits sum.splits)

text \<open>The four ways through \<open>executeAgent\<close> for a registered agent.\<close>

lemma executeAgent_call_failure:
  assumes "agents s agentId = Some a"
    and "callAPI E (provider a)
           (Some \<lparr>role = ''system'', content = instructions a\<rparr> # memory a
              @ [Some \<lparr>role = ''user'', content = msg\<rparr>])
           (model a) (case ctx of None \<Rightarrow> [] | Some opts \<Rightarrow> opts) s = (Inl e, s1)"
  shows "executeAgent E agentId msg ctx s = (Inl e, s1)"
  using assms by (simp add: executeAgent_def Let_def)

lemma executeAgent_no_choice:
  assumes "agents s agentId = Some a"
    and "callAPI E (provider a)
           (Some \<lparr>role = ''system'', content = instructions a\<rparr> # memory a
              @ [Some \<lparr>role = ''user'', content = msg\<rparr>])
           (model a) (case ctx of None \<Rightarrow> [] | Some opts \<Rightarrow> opts) s = (Inr p, s1)"
    and "first_choice p = Inl e"
  shows "executeAgent E agentId msg ctx s = (Inl e, s1)"
  using assms by (simp add: executeAgent_def Let_def)

lemma executeAgent_reply:
  assumes "agents s agentId = Some a"
    and "callAPI E (provider a)
           (Some \<lparr>role = ''system'', content = instructions a\<rparr> # memory a
              @ [Some \<lparr>role = ''user'', content = msg\<rparr>])
           (model a) (case ctx of None \<Rightarrow> [] | Some opts \<Rightarrow> opts) s = (Inr p, s1)"
    and "first_choice p = Inr (Some m, u)"
  shows "executeAgent E agentId msg ctx s =
           (Inr \<lparr>res_agent = \<lparr>sum_id = agent_id a, sum_name = name a,
                               sum_role = agent_role a, sum_provider = provider a\<rparr>,
                  res_response = content m, res_usage = u\<rparr>,
            s1\<lparr>agents := (agents s)(agentId \<mapsto>
                  a\<lparr>memory := update_memory (memory a) msg (Some m)\<rparr>)\<rparr>)"
  using assms callAPI_agents [OF assms(2)]
  by (simp add: executeAgent_def Let_def)

lemma executeAgent_missing_message:
  assumes "agents s agentId = Some a"
    and "callAPI E (provider a)
           (Some \<lparr>role = ''system'', content = instructions a\<rparr> # memory a
              @ [Some \<lparr>role = ''user'', content = msg\<rparr>])
           (model a) (case ctx of None \<Rightarrow> [] | Some opts \<Rightarrow> opts) s = (Inr p, s1)"
    and "first_choice p = Inr (None, u)"
  shows "executeAgent E agentId msg ctx s =
           (Inl (TypeError ''Cannot read properties of undefined (reading 'content')''),
            s1\<lparr>agents := (agents s)(agentId \<mapsto>
                  a\<lparr>memory := update_memory (memory a) msg None\<rparr>)\<rparr>)"
  using assms callAPI_agents [OF assms(2)]
  by (simp add: executeAgent_def Let_def)

lemma executeAgent_success_only_by_reply:
  assumes "agents s agentId = Some a" "executeAgent E agentId msg ctx s = (Inr res, s')"
  shows "\<exists>p s1 m u.
           callAPI E (provider a)
             (Some \<lparr>role = ''system'', content = instructions a\<rparr> # memory a
                @ [Some \<lparr>role = ''user'', content = msg\<rparr>])
             (model a) (case ctx of None \<Rightarrow> [] | Some opts \<Rightarrow> opts) s = (Inr p, s1)
         \<and> first_choice p = Inr (Some m, u)
         \<and> agents s' = (agents s)(agentId \<mapsto> a\<lparr>memory := update_memory (memory a) msg (Some m)\<rparr>)
         \<and> res_response res = content m"
proof -
  let ?c = "callAPI E (provider a)
             (Some \<lparr>role = ''system'', content = instructions a\<rparr> # memory a
                @ [Some \<lparr>role = ''user'', content = msg\<rparr>])
             (model a) (case ctx of None \<Rightarrow> [] | Some opts \<Rightarrow> opts) s"
  obtain r s1 where c: "?c = (r, s1)" by (cases ?c) auto
  show ?thesis
  proof (cases r)
    case (Inl e)
    with assms c show ?thesis
      using executeAgent_call_failure [of s agentId a E msg ctx e s1] by simp
  next
    case (Inr p)
    note p = this
    show ?thesis
    proof (cases "first_choice p")
      case (Inl e)
      with assms c p show ?thesis
        using executeAgent_no_choice [of s agentId a E msg ctx p s1 e] by simp
    next
      case (Inr mu)
      obtain mo u where mu: "mu = (mo, u)" by (cases mu) auto
      show ?thesis
      proof (cases mo)
        case None
        with assms c p Inr mu show ?thesis
          using executeAgent_missing_message [of s agentId a E msg ctx p s1 u] by simp
      next
        case (Some m)
        with assms c p Inr mu have "executeAgent E agentId msg ctx s =
           (Inr \<lparr>res_agent = \<lparr>sum_id = agent_id a, sum_name = name a,
                               sum_role = agent_role a, sum_provider = provider a\<rparr>,
                  res_response = content m, res_usage = u\<rparr>,
            s1\<lparr>agents := (agents s)(agentId \<mapsto>
                  a\<lparr>memory := update_memory (memory a) msg (Some m)\<rparr>)\<rparr>)"
          using executeAgent_reply [of s agentId a E msg ctx p s1 m u] by simp
        with assms(2) have "res_response res = content m"
          and "agents s' = (agents s)(agentId \<mapsto>
                  a\<lparr>memory := update_memory (memory a) msg (Some m)\<rparr>)"
          by auto
        with c p Inr mu Some show ?thesis
          by blast
      qed
    qed
  qed
qed

lemma executeAgent_failure_memory:
  assumes "executeAgent E agentId msg ctx s = (Inl e, s')"
  shows "agents s' = agents s
         \<or> (\<exists>a p s1 u.
               agents s agentId = Some a
             \<and> callAPI E (provider a)
                 (Some \<lparr>role = ''system'', content = instructions a\<rparr> # memory a
                    @ [Some \<lparr>role = ''user'', content = msg\<rparr>])
                 (model a) (case ctx of None \<Rightarrow> [] | Some opts \<Rightarrow> opts) s = (Inr p, s1)
             \<and> first_choice p = Inr (None, u)
             \<and> agents s' = (agents s)(agentId \<mapsto> a\<lparr>memory := update_memory (memory a) msg None\<rparr>))"
proof (cases "agents s agentId")
  case None
  with assms show ?thesis
    by (simp add: executeAgent_def)
next
  case (Some a)
  let ?c = "callAPI E (provider a)
             (Some \<lparr>role = ''system'', content = instructions a\<rparr> # memory a
                @ [Some \<lparr>role = ''user'', content = msg\<rparr>])
             (model a) (case ctx of None \<Rightarrow> [] | Some opts \<Rightarrow> opts) s"
  obtain r s1 where c: "?c = (r, s1)" by (cases ?c) auto
  then have keep: "agents s1 = agents s"
    by (rule callAPI_agents)
  show ?thesis
  proof (cases r)
    case (Inl e1)
    with assms Some c keep show ?thesis
      using executeAgent_call_failure [of s agentId a E msg ctx e1 s1] by simp
  next
    case (Inr p)
    note p = this
    show ?thesis
    proof (cases "first_choice p")
      case (Inl e1)
      with assms Some c p keep show ?thesis
        using executeAgent_no_choice [of s agentId a E msg ctx p s1 e1] by simp
    next
      case (Inr mu)
      obtain mo u where mu: "mu = (mo, u)" by (cases mu) auto
      show ?thesis
      proof (cases mo)
        case None
        with assms Some c p Inr mu have
          "agents s' = (agents s)(agentId \<mapsto> a\<lparr>memory := update_memory (memory a) msg None\<rparr>)"
          using executeAgent_missing_message [of s agentId a E msg ctx p s1 u] by auto
        with Some c p Inr mu None show ?thesis
          by blast
      next
        case (Some m)
        with assms \<open>agents s agentId = Some a\<close> c p Inr mu show ?thesis
          using executeAgent_reply [of s agentId a E msg ctx p s1 m u] by simp
      qed
    qed
  qed
qed

lemma executeAgent_effect:
  "agents (snd (executeAgent E agentId msg ctx s)) = agents s
   \<or> (\<exists>a m. agents s agentId = Some a
        \<and> agents (snd (executeAgent E agentId msg ctx s))
            = (agents s)(agentId \<mapsto> a\<lparr>memory := update_memory (memory a) msg m\<rparr>))"
proof (cases "executeAgent E agentId msg ctx s")
  case (Pair r s')
  show ?thesis
  proof (cases r)
    case (Inl e)
    with Pair show ?thesis
      using executeAgent_failure_memory [of E agentId msg ctx s e s'] by auto
  next
    case (Inr res)
    with Pair obtain a where a: "agents s agentId = Some a"
      by (auto simp: executeAgent_def split: option.splits)
    with Pair Inr show ?thesis
      using executeAgent_success_only_by_reply [of s agentId a E msg ctx res s'] by auto
  qed
qed

lemma update_memory_drop:
  "update_memory mem msg m =
     drop (length mem + 2 - 20) (mem @ [Some \<lparr>role = ''user'', content = msg\<rparr>, m])"
  by (simp add: update_memory_def slice_last_def Let_def)

lemma update_memory_length: "length (update_memory mem msg m) \<le> 20"
  by (simp add: update_memory_drop)




lemmas run_defs = executeAgent_def callAPI_def callOpenAI_def callAnthropic_def
  checkRateLimit_openai checkRateLimit_anthropic fetch_def Date_now_def
  openai_reply_def anthropic_reply_def openai_request_def anthropic_request_def
  first_choice_def update_memory_def slice_last_def Let_def


subsection \<open>The bound on the memory\<close>

lemma executeAgent_cap:
  assumes "\<forall>i b. agents s i = Some b \<longrightarrow> length (memory b) \<le> 20"
  shows "\<forall>i b. agents (snd (executeAgent E agentId msg ctx s)) i = Some b
           \<longrightarrow> length (memory b) \<le> 20"
  using assms executeAgent_effect [of E agentId msg ctx s]
  by (auto simp: update_memory_length split: if_splits)

lemma createAgent_cap:
  assumes "\<forall>i b. agents s i = Some b \<longrightarrow> length (memory b) \<le> 20"
  shows "\<forall>i b. agents (snd (createAgent E uid cfg s)) i = Some b \<longrightarrow> length (memory b) \<le> 20"
  using assms by (auto simp: createAgent_def Date_now_def Let_def)

lemma collab_turn_cap:
  assumes "\<forall>i b. agents (snd (snd st)) i = Some b \<longrightarrow> length (memory b) \<le> 20"
  shows "\<forall>i b. agents (snd (snd (collab_turn E k ids agentId st))) i = Some b
           \<longrightarrow> length (memory b) \<le> 20"
proof -
  obtain conv cur s where st: "st = (conv, cur, s)" by (cases st) auto
  obtain r s1 where ex: "executeAgent E agentId cur None s = (r, s1)"
    by (cases "executeAgent E agentId cur None s") auto
  have "\<forall>i b. agents s1 i = Some b \<longrightarrow> length (memory b) \<le> 20"
    using executeAgent_cap [of s E agentId cur None] assms st ex by simp
  then show ?thesis
    using st ex by (cases r) (simp_all add: collab_turn_def Date_now_def Let_def)
qed

lemma collab_round_cap:
  "\<forall>i b. agents (snd (snd st)) i = Some b \<longrightarrow> length (memory b) \<le> 20 \<Longrightarrow>
   \<forall>i b. agents (snd (snd (collab_round E k ids rest st))) i = Some b
     \<longrightarrow> length (memory b) \<le> 20"
proof (induction rest arbitrary: st)
  case Nil
  then show ?case by simp
next
  case (Cons agentId rest)
  from Cons.prems have "\<forall>i b. agents (snd (snd (collab_turn E k ids agentId st))) i = Some b
           \<longrightarrow> length (memory b) \<le> 20"
    by (rule collab_turn_cap)
  then show ?case
    using Cons.IH by simp
qed

lemma collab_loop_cap:
  "\<forall>i b. agents (snd (snd st)) i = Some b \<longrightarrow> length (memory b) \<le> 20 \<Longrightarrow>
   \<forall>i b. agents (snd (snd (collab_loop E ids iterations k st))) i = Some b
     \<longrightarrow> length (memory b) \<le> 20"
proof (induction E ids iterations k st rule: collab_loop.induct)
  case (1 E agentIds iterations i st)
  show ?case
  proof (cases "i < iterations")
    case True
    have "\<forall>j b. agents (snd (snd (collab_round E i agentIds agentIds st))) j = Some b
            \<longrightarrow> length (memory b) \<le> 20"
      using "1.prems" by (rule collab_round_cap)
    with True "1.IH" show ?thesis
      by (simp add: collab_loop.simps [of E agentIds iterations i])
  next
    case False
    with "1.prems" show ?thesis
      by (simp add: collab_loop.simps [of E agentIds iterations i])
  qed
qed

lemma collaborateAgents_cap:
  assumes "\<forall>i b. agents s i = Some b \<longrightarrow> length (memory b) \<le> 20"
  shows "\<forall>i b. agents (snd (collaborateAgents E uid ids g iterations s)) i = Some b
           \<longrightarrow> length (memory b) \<le> 20"
proof -
  let ?st = "([], initial_message g, s\<lparr>ticks := Suc (ticks s)\<rparr>)"
  have "\<forall>i b. agents (snd (snd ?st)) i = Some b \<longrightarrow> length (memory b) \<le> 20"
    using assms by simp
  then have "\<forall>i b. agents (snd (snd (collab_loop E ids iterations 0 ?st))) i = Some b
               \<longrightarrow> length (memory b) \<le> 20"
    by (rule collab_loop_cap)
  then show ?thesis
    by (simp add: collaborateAgents_def Date_now_def Let_def split: prod.splits)
qed

lemma slice_last_append:
  assumes "0 < n"
  shows "slice_last n (slice_last n xs @ ys) = slice_last n (xs @ ys)"
proof -
  have idx: "length xs + length ys - (length xs - n + n) + (length xs - n)
               = length xs + length ys - n"
    by arith
  show ?thesis
    using assms by (simp add: slice_last_def idx)
qed

lemma update_memory_slice:
  "update_memory mem msg m = slice_last 20 (mem @ [Some \<lparr>role = ''user'', content = msg\<rparr>, m])"
  by (simp add: update_memory_def slice_last_def Let_def)

lemma exchanges_memory:
  "foldl (\<lambda>mem (q, r). update_memory mem q r) [] xs
     = slice_last 20 (concat (map (\<lambda>(q, r). [Some \<lparr>role = ''user'', content = q\<rparr>, r]) xs))"
proof (induction xs rule: rev_induct)
  case Nil
  show ?case by (simp add: slice_last_def)
next
  case (snoc x xs)
  obtain q r where x: "x = (q, r)" by (cases x) auto
  show ?case
    using snoc by (simp add: x update_memory_slice slice_last_append)
qed

lemma exchanges_length:
  "length (concat (map (\<lambda>(q, r). [Some \<lparr>role = ''user'', content = q\<rparr>, r]) xs)) = 2 * length xs"
  by (induction xs) auto

text \<open>
  Claim C4. After the memory update of \<open>executeAgent\<close> the memory has at most 20
  entries, and it is the old memory followed by the new pair with the oldest entries
  dropped from the front, never the newest. No operation of the engine ever leaves a
  longer memory: if every registered agent has at most 20 entries, this still holds
  after \<open>executeAgent\<close>, \<open>createAgent\<close> and \<open>collaborateAgents\<close>. Starting from an empty
  memory, any sequence of successful exchanges leaves exactly the last 20 messages
  appended, in order; after 15 exchanges these are 20 messages.
\<close>

theorem memory_bounded_fifo:
  "length (update_memory mem msg m) \<le> 20
   \<and> update_memory mem msg m
       = drop (length mem + 2 - 20) (mem @ [Some \<lparr>role = ''user'', content = msg\<rparr>, m])
   \<and> ((\<forall>i b. agents s i = Some b \<longrightarrow> length (memory b) \<le> 20) \<longrightarrow>
        (\<forall>i b. agents (snd (executeAgent E agentId msg ctx s)) i = Some b
           \<longrightarrow> length (memory b) \<le> 20)
      \<and> (\<forall>i b. agents (snd (createAgent E uid cfg s)) i = Some b
           \<longrightarrow> length (memory b) \<le> 20)
      \<and> (\<forall>i b. agents (snd (collaborateAgents E uid ids g iterations s)) i = Some b
           \<longrightarrow> length (memory b) \<le> 20))
   \<and> foldl (\<lambda>mem (q, r). update_memory mem q r) [] xs
       = slice_last 20 (concat (map (\<lambda>(q, r). [Some \<lparr>role = ''user'', content = q\<rparr>, r]) xs))
   \<and> (length xs = 15 \<longrightarrow>
        length (foldl (\<lambda>mem (q, r). update_memory mem q r) [] xs) = 20)"
proof (intro conjI impI)
  show "length (update_memory mem msg m) \<le> 20"
    by (rule update_memory_length)
  show "update_memory mem msg m
       = drop (length mem + 2 - 20) (mem @ [Some \<lparr>role = ''user'', content = msg\<rparr>, m])"
    by (rule update_memory_drop)
  show "foldl (\<lambda>mem (q, r). update_memory mem q r) [] xs
       = slice_last 20 (concat (map (\<lambda>(q, r). [Some \<lparr>role = ''user'', content = q\<rparr>, r]) xs))"
    by (rule exchanges_memory)
next
  assume "length xs = 15"
  then show "length (foldl (\<lambda>mem (q, r). update_memory mem q r) [] xs) = 20"
    by (simp add: exchanges_memory exchanges_length slice_last_def)
next
  assume inv: "\<forall>i b. agents s i = Some b \<longrightarrow> length (memory b) \<le> 20"
  then show "\<forall>i b. agents (snd (executeAgent E agentId msg ctx s)) i = Some b
           \<longrightarrow> length (memory b) \<le> 20"
    by (rule executeAgent_cap)
  from inv show "\<forall>i b. agents (snd (createAgent E uid cfg s)) i = Some b
           \<longrightarrow> length (memory b) \<le> 20"
    by (rule createAgent_cap)
  from inv show "\<forall>i b. agents (snd (collaborateAgents E uid ids g iterations s)) i = Some b
           \<longrightarrow> length (memory b) \<le> 20"
    by (rule collaborateAgents_cap)
qed

text \<open>
  Fifteen exchanges, the k-th with the user message k: what remains are the exchanges
  6 to 15, both for the memory update alone and for fifteen calls of \<open>executeAgent\<close> in
  the example deployment.
\<close>

theorem memory_bounded_witness:
  "length (map (\<lambda>k. (string_of_nat k, Some \<lparr>role = ''assistant'', content = ''fine''\<rparr>)) [1..<16]) = 15
   \<and> (\<exists>b. agents (snd (executeAgent demo_env ''a1'' ''hello'' None (demo_state 60))) ''a1'' = Some b
         \<and> length (memory b) \<le> 20)
   \<and> foldl (\<lambda>mem (q, r). update_memory mem q r) []
        (map (\<lambda>k. (string_of_nat k, Some \<lparr>role = ''assistant'', content = ''fine''\<rparr>)) [1..<16])
       = concat (map (\<lambda>k. [Some \<lparr>role = ''user'', content = string_of_nat k\<rparr>,
                             Some \<lparr>role = ''assistant'', content = ''fine''\<rparr>]) [6..<16])
   \<and> map_option memory
        (agents (foldl (\<lambda>s q. snd (executeAgent demo_env ''a1'' q None s)) (demo_state 60)
                   (map string_of_nat [1..<16])) ''a1'')
       = Some (concat (map (\<lambda>k. [Some \<lparr>role = ''user'', content = string_of_nat k\<rparr>,
                                   Some \<lparr>role = ''assistant'', content = ''fine''\<rparr>]) [6..<16]))"
proof -
  let ?xs = "map (\<lambda>k. (string_of_nat k, Some \<lparr>role = ''assistant'', content = ''fine''\<rparr>)) [1..<16]"
  note fifo = memory_bounded_fifo [where s = "demo_state 60" and E = demo_env
                 and agentId = "''a1''" and msg = "''hello''" and ctx = None and xs = ?xs]
  have inv: "\<forall>i b. agents (demo_state 60) i = Some b \<longrightarrow> length (memory b) \<le> 20"
    by (auto simp: demo_defs split: if_splits)
  have len: "length ?xs = 15"
    by simp
  have "\<forall>i b. agents (snd (executeAgent demo_env ''a1'' ''hello'' None (demo_state 60))) i = Some b
         \<longrightarrow> length (memory b) \<le> 20"
    using fifo inv by blast
  moreover have "\<exists>b. agents (snd (executeAgent demo_env ''a1'' ''hello'' None (demo_state 60))) ''a1''
                     = Some b"
    by (simp add: demo_defs run_defs)
  ultimately have cap: "\<exists>b. agents (snd (executeAgent demo_env ''a1'' ''hello'' None (demo_state 60))) ''a1'' = Some b
         \<and> length (memory b) \<le> 20"
    by blast
  have "foldl (\<lambda>mem (q, r). update_memory mem q r) [] ?xs
          = slice_last 20 (concat (map (\<lambda>(q, r). [Some \<lparr>role = ''user'', content = q\<rparr>, r]) ?xs))"
    using fifo by blast
  also have "\<dots> = concat (map (\<lambda>k. [Some \<lparr>role = ''user'', content = string_of_nat k\<rparr>,
                             Some \<lparr>role = ''assistant'', content = ''fine''\<rparr>]) [6..<16])"
    by code_simp
  finally have pure: "foldl (\<lambda>mem (q, r). update_memory mem q r) [] ?xs
          = concat (map (\<lambda>k. [Some \<lparr>role = ''user'', content = string_of_nat k\<rparr>,
                             Some \<lparr>role = ''assistant'', content = ''fine''\<rparr>]) [6..<16])" .
  have run: "map_option memory
        (agents (foldl (\<lambda>s q. snd (executeAgent demo_env ''a1'' q None s)) (demo_state 60)
                   (map string_of_nat [1..<16])) ''a1'')
       = Some (concat (map (\<lambda>k. [Some \<lparr>role = ''user'', content = string_of_nat k\<rparr>,
                                   Some \<lparr>role = ''assistant'', content = ''fine''\<rparr>]) [6..<16]))"
    by code_simp
  from len cap pure run show ?thesis
    by (intro conjI)
qed

subsection \<open>The Anthropic adapter\<close>

lemma spread_lookup:
  "map_of (spread base opts) k = (case map_of opts k of Some v \<Rightarrow> Some v | None \<Rightarrow> map_of base k)"
  by (simp add: spread_def AList.merge_conv' map_add_def)

lemma those_map_Some: "those (map Some xs) = Some xs"
  by (induction xs) simp_all

lemma callAnthropic_admitted:
  assumes "anthropicKey s = Some key" "key \<noteq> []"
    and "fst (checkRateLimit E ''anthropic'' s) = Inr True"
  shows "fst (callAnthropic E (map Some ms) mdl opts s)
           = anthropic_reply (net E (fetches s) (anthropic_request key ms mdl opts))"
  using assms
  by (auto simp: callAnthropic_def checkRateLimit_anthropic fetch_def Let_def those_map_Some
           split: if_splits prod.splits)

lemma callOpenAI_admitted:
  assumes "openaiKey s = Some key" "key \<noteq> []"
    and "fst (checkRateLimit E ''openai'' s) = Inr True"
  shows "fst (callOpenAI E ms mdl opts s)
           = openai_reply (net E (fetches s) (openai_request key ms mdl opts))"
  using assms
  by (auto simp: callOpenAI_def checkRateLimit_openai fetch_def Let_def
           split: if_splits prod.splits)

lemma anthropic_request_fields:
  assumes "map_of opts ''system'' = None" "map_of opts ''messages'' = None"
  shows "map_of (body (anthropic_request key ms mdl opts)) ''system''
           = Some (JStr (join [CHR 0x0A] (map content (filter (\<lambda>m. role m = ''system'') ms))))"
    and "map_of (body (anthropic_request key ms mdl opts)) ''messages''
           = Some (JMessages (map Some (filter (\<lambda>m. role m \<noteq> ''system'') ms)))"
  using assms by (simp_all add: anthropic_request_def spread_lookup Let_def)

text \<open>
  Claim C8, as the code has it. A call of \<open>callAnthropic\<close> that passes the credential
  check and the rate limiter sends one request, and what it returns is the reply to that
  request, rewritten. The caller's options are spread over the body last: when they carry
  no \<open>system\<close> and no \<open>messages\<close> key (no option, the default, carries none), the request
  has the contents of all \<open>system\<close> messages, joined by newlines, as its \<open>system\<close> field and
  the other messages, in their original order, as its \<open>messages\<close> field, for every message
  list. When the provider answers with a content block, the adapter returns a chat
  completion whose single choice is an assistant message with the text of the first
  block, together with the provider's usage, from which \<open>executeAgent\<close> reads message and
  usage; \<open>callOpenAI\<close> returns the very same value when its provider answers with that
  completion.
\<close>

theorem anthropic_normalization:
  "anthropicKey s = Some key \<and> key \<noteq> []
   \<and> fst (checkRateLimit E ''anthropic'' s) = Inr True
   \<and> map_of opts ''system'' = None \<and> map_of opts ''messages'' = None
   \<longrightarrow>
     fst (callAnthropic E (map Some ms) mdl opts s)
       = anthropic_reply (net E (fetches s) (anthropic_request key ms mdl opts))
   \<and> map_of (body (anthropic_request key ms mdl opts)) ''system''
       = Some (JStr (join [CHR 0x0A] (map content (filter (\<lambda>m. role m = ''system'') ms))))
   \<and> map_of (body (anthropic_request key ms mdl opts)) ''messages''
       = Some (JMessages (map Some (filter (\<lambda>m. role m \<noteq> ''system'') ms)))
   \<and> (net E (fetches s) (anthropic_request key ms mdl opts)
         = Resolved \<lparr>ok = True, status = st, statusText = tx,
                     json = AnthropicMessage (t # ts) u\<rparr>
       \<longrightarrow>
         fst (callAnthropic E (map Some ms) mdl opts s)
           = Inr (ChatCompletion [Some \<lparr>role = ''assistant'', content = t\<rparr>] u)
       \<and> first_choice (ChatCompletion [Some \<lparr>role = ''assistant'', content = t\<rparr>] u)
           = Inr (Some \<lparr>role = ''assistant'', content = t\<rparr>, u)
       \<and> (openaiKey s = Some key2 \<and> key2 \<noteq> []
           \<and> fst (checkRateLimit E ''openai'' s) = Inr True
           \<and> net E (fetches s) (openai_request key2 ms2 mdl2 opts2)
               = Resolved \<lparr>ok = True, status = st2, statusText = tx2,
                           json = ChatCompletion [Some \<lparr>role = ''assistant'', content = t\<rparr>] u\<rparr>
           \<longrightarrow> fst (callOpenAI E ms2 mdl2 opts2 s)
                 = fst (callAnthropic E (map Some ms) mdl opts s)))"
proof (intro impI)
  assume h: "anthropicKey s = Some key \<and> key \<noteq> []
   \<and> fst (checkRateLimit E ''anthropic'' s) = Inr True
   \<and> map_of opts ''system'' = None \<and> map_of opts ''messages'' = None"
  let ?rq = "anthropic_request key ms mdl opts"
  have sent: "fst (callAnthropic E (map Some ms) mdl opts s) = anthropic_reply (net E (fetches s) ?rq)"
    using h by (simp add: callAnthropic_admitted)
  have sys: "map_of (body ?rq) ''system''
       = Some (JStr (join [CHR 0x0A] (map content (filter (\<lambda>m. role m = ''system'') ms))))"
    and conv: "map_of (body ?rq) ''messages''
       = Some (JMessages (map Some (filter (\<lambda>m. role m \<noteq> ''system'') ms)))"
    using h by (simp_all add: anthropic_request_fields)
  have wrap: "net E (fetches s) ?rq
         = Resolved \<lparr>ok = True, status = st, statusText = tx,
                     json = AnthropicMessage (t # ts) u\<rparr>
       \<longrightarrow>
         fst (callAnthropic E (map Some ms) mdl opts s)
           = Inr (ChatCompletion [Some \<lparr>role = ''assistant'', content = t\<rparr>] u)
       \<and> first_choice (ChatCompletion [Some \<lparr>role = ''assistant'', content = t\<rparr>] u)
           = Inr (Some \<lparr>role = ''assistant'', content = t\<rparr>, u)
       \<and> (openaiKey s = Some key2 \<and> key2 \<noteq> []
           \<and> fst (checkRateLimit E ''openai'' s) = Inr True
           \<and> net E (fetches s) (openai_request key2 ms2 mdl2 opts2)
               = Resolved \<lparr>ok = True, status = st2, statusText = tx2,
                           json = ChatCompletion [Some \<lparr>role = ''assistant'', content = t\<rparr>] u\<rparr>
           \<longrightarrow> fst (callOpenAI E ms2 mdl2 opts2 s)
                 = fst (callAnthropic E (map Some ms) mdl opts s))"
  proof (intro impI conjI)
    assume r: "net E (fetches s) ?rq
         = Resolved \<lparr>ok = True, status = st, statusText = tx,
                     json = AnthropicMessage (t # ts) u\<rparr>"
    with sent show a: "fst (callAnthropic E (map Some ms) mdl opts s)
           = Inr (ChatCompletion [Some \<lparr>role = ''assistant'', content = t\<rparr>] u)"
      by (simp add: anthropic_reply_def)
    show "first_choice (ChatCompletion [Some \<lparr>role = ''assistant'', content = t\<rparr>] u)
           = Inr (Some \<lparr>role = ''assistant'', content = t\<rparr>, u)"
      by (simp add: first_choice_def)
    assume o: "openaiKey s = Some key2 \<and> key2 \<noteq> []
           \<and> fst (checkRateLimit E ''openai'' s) = Inr True
           \<and> net E (fetches s) (openai_request key2 ms2 mdl2 opts2)
               = Resolved \<lparr>ok = True, status = st2, statusText = tx2,
                           json = ChatCompletion [Some \<lparr>role = ''assistant'', content = t\<rparr>] u\<rparr>"
    then have "fst (callOpenAI E ms2 mdl2 opts2 s)
                 = Inr (ChatCompletion [Some \<lparr>role = ''assistant'', content = t\<rparr>] u)"
      by (simp add: callOpenAI_admitted openai_reply_def)
    with a show "fst (callOpenAI E ms2 mdl2 opts2 s)
                 = fst (callAnthropic E (map Some ms) mdl opts s)"
      by simp
  qed
  from sent sys conv wrap show "fst (callAnthropic E (map Some ms) mdl opts s)
       = anthropic_reply (net E (fetches s) (anthropic_request key ms mdl opts))
   \<and> map_of (body (anthropic_request key ms mdl opts)) ''system''
       = Some (JStr (join [CHR 0x0A] (map content (filter (\<lambda>m. role m = ''system'') ms))))
   \<and> map_of (body (anthropic_request key ms mdl opts)) ''messages''
       = Some (JMessages (map Some (filter (\<lambda>m. role m \<noteq> ''system'') ms)))
   \<and> (net E (fetches s) (anthropic_request key ms mdl opts)
         = Resolved \<lparr>ok = True, status = st, statusText = tx,
                     json = AnthropicMessage (t # ts) u\<rparr>
       \<longrightarrow>
         fst (callAnthropic E (map Some ms) mdl opts s)
           = Inr (ChatCompletion [Some \<lparr>role = ''assistant'', content = t\<rparr>] u)
       \<and> first_choice (ChatCompletion [Some \<lparr>role = ''assistant'', content = t\<rparr>] u)
           = Inr (Some \<lparr>role = ''assistant'', content = t\<rparr>, u)
       \<and> (openaiKey s = Some key2 \<and> key2 \<noteq> []
           \<and> fst (checkRateLimit E ''openai'' s) = Inr True
           \<and> net E (fetches s) (openai_request key2 ms2 mdl2 opts2)
               = Resolved \<lparr>ok = True, status = st2, statusText = tx2,
                           json = ChatCompletion [Some \<lparr>role = ''assistant'', content = t\<rparr>] u\<rparr>
           \<longrightarrow> fst (callOpenAI E ms2 mdl2 opts2 s)
                 = fst (callAnthropic E (map Some ms) mdl opts s)))"
    by (intro conjI)
qed

text \<open>
  With the echo service behind both endpoints: the reply of the Anthropic adapter is the
  joined system prompt, the service has received the two other messages, and the OpenAI
  adapter returns the same value for the same conversation.
\<close>

theorem anthropic_normalization_witness:
  "fst (checkRateLimit echo_env ''anthropic'' (demo_state 60)) = Inr True
   \<and> fst (callAnthropic echo_env (map Some sample_messages) ''claude-3-5-sonnet-20241022'' []
            (demo_state 60))
       = Inr (ChatCompletion
                [Some \<lparr>role = ''assistant'', content = ''Be brief.'' @ [CHR 0x0A] @ ''Be kind.''\<rparr>]
                [(''received'', 2)])
   \<and> map_of (body (anthropic_request ''sk-ant-test'' sample_messages
                      ''claude-3-5-sonnet-20241022'' [])) ''messages''
       = Some (JMessages [Some \<lparr>role = ''user'', content = ''hi''\<rparr>,
                          Some \<lparr>role = ''assistant'', content = ''yo''\<rparr>])
   \<and> fst (callOpenAI echo_env (map Some sample_messages) ''gpt-4'' [] (demo_state 60))
       = fst (callAnthropic echo_env (map Some sample_messages) ''claude-3-5-sonnet-20241022'' []
                (demo_state 60))"
proof -
  let ?t = "''Be brief.'' @ [CHR 0x0A] @ ''Be kind.''"
  let ?rq = "anthropic_request ''sk-ant-test'' sample_messages ''claude-3-5-sonnet-20241022'' []"
  have adm: "fst (checkRateLimit echo_env ''anthropic'' (demo_state 60)) = Inr True"
    by code_simp
  have hyp: "anthropicKey (demo_state 60) = Some ''sk-ant-test'' \<and> ''sk-ant-test'' \<noteq> []
     \<and> fst (checkRateLimit echo_env ''anthropic'' (demo_state 60)) = Inr True
     \<and> map_of ([] :: obj) ''system'' = None \<and> map_of ([] :: obj) ''messages'' = None"
    using adm by (simp add: demo_state_def)
  have answer: "net echo_env (fetches (demo_state 60)) ?rq
      = Resolved \<lparr>ok = True, status = 200, statusText = ''OK'',
                  json = AnthropicMessage (?t # []) [(''received'', 2)]\<rparr>"
    by code_simp
  have other: "openaiKey (demo_state 60) = Some ''sk-test'' \<and> ''sk-test'' \<noteq> []
     \<and> fst (checkRateLimit echo_env ''openai'' (demo_state 60)) = Inr True
     \<and> net echo_env (fetches (demo_state 60))
          (openai_request ''sk-test'' (map Some sample_messages) ''gpt-4'' [])
        = Resolved \<lparr>ok = True, status = 200, statusText = ''OK'',
                    json = ChatCompletion [Some \<lparr>role = ''assistant'', content = ?t\<rparr>]
                             [(''received'', 2)]\<rparr>"
    by code_simp
  note norm = anthropic_normalization [where s = "demo_state 60" and key = "''sk-ant-test''"
      and E = echo_env and opts = "[]" and ms = sample_messages
      and mdl = "''claude-3-5-sonnet-20241022''" and st = 200 and tx = "''OK''" and t = ?t
      and ts = "[]" and u = "[(''received'', 2)]" and ?key2.0 = "''sk-test''"
      and ?ms2.0 = "map Some sample_messages" and ?mdl2.0 = "''gpt-4''" and ?opts2.0 = "[]"
      and ?st2.0 = 200 and ?tx2.0 = "''OK''"]
  from norm hyp answer have wrapped: "fst (callAnthropic echo_env (map Some sample_messages)
            ''claude-3-5-sonnet-20241022'' [] (demo_state 60))
       = Inr (ChatCompletion [Some \<lparr>role = ''assistant'', content = ?t\<rparr>] [(''received'', 2)])"
    by blast
  from norm hyp have "map_of (body ?rq) ''messages''
       = Some (JMessages (map Some (filter (\<lambda>m. role m \<noteq> ''system'') sample_messages)))"
    by blast
  then have conv: "map_of (body ?rq) ''messages''
       = Some (JMessages [Some \<lparr>role = ''user'', content = ''hi''\<rparr>,
                          Some \<lparr>role = ''assistant'', content = ''yo''\<rparr>])"
    by (simp add: sample_messages_def)
  from norm hyp answer other have same: "fst (callOpenAI echo_env (map Some sample_messages) ''gpt-4'' []
            (demo_state 60))
       = fst (callAnthropic echo_env (map Some sample_messages) ''claude-3-5-sonnet-20241022'' []
                (demo_state 60))"
    by blast
  from adm wrapped conv same show ?thesis
    by (intro conjI)
qed

text \<open>
  The claim as stated (for every message list the \<open>system\<close> field sent is the joined
  contents of the \<open>system\<close> messages) fails when the caller's options carry a \<open>system\<close>
  key: the request then has the caller's value, and that is what the echo service has
  received.
\<close>

theorem anthropic_normalization_counterexample:
  "map_of (body (anthropic_request ''sk-ant-test'' sample_messages
                   ''claude-3-5-sonnet-20241022'' override_options)) ''system''
     = Some (JStr ''Shout.'')
   \<and> fst (callAnthropic echo_env (map Some sample_messages) ''claude-3-5-sonnet-20241022''
            override_options (demo_state 60))
       = Inr (ChatCompletion [Some \<lparr>role = ''assistant'', content = ''Shout.''\<rparr>]
                [(''received'', 2)])
   \<and> fst (callAnthropic echo_env (map Some sample_messages) ''claude-3-5-sonnet-20241022''
            override_options (demo_state 60))
       \<noteq> Inr (ChatCompletion
                [Some \<lparr>role = ''assistant'', content = ''Be brief.'' @ [CHR 0x0A] @ ''Be kind.''\<rparr>]
                [(''received'', 2)])"
  by code_simp

subsection \<open>Failure isolation in the collaboration\<close>

lemma collab_turn_length:
  "length (fst (collab_turn E i ids agentId st)) = Suc (length (fst st))"
  by (auto simp: collab_turn_def Date_now_def Let_def split: prod.splits sum.splits)

lemma collab_round_length:
  "length (fst (collab_round E i ids rest st)) = length (fst st) + length rest"
  by (induction rest arbitrary: st) (simp_all add: collab_turn_length)

lemma collab_loop_length:
  "length (fst (collab_loop E ids iterations i st))
     = length (fst st) + length ids * nat (iterations - i)"
proof (induction E ids iterations i st rule: collab_loop.induct)
  case (1 E agentIds iterations i st)
  show ?case
  proof (cases "i < iterations")
    case True
    then have "nat (iterations - i) = Suc (nat (iterations - (i + 1)))"
      by simp
    with True "1.IH" show ?thesis
      by (simp add: collab_loop.simps [of E agentIds iterations i] collab_round_length)
  next
    case False
    then show ?thesis
      by (simp add: collab_loop.simps [of E agentIds iterations i])
  qed
qed

text \<open>
  Claim C1. For every list of agents and every number of iterations, \<open>collaborateAgents\<close>
  returns (it is a total function, nothing propagates out of it) with exactly one turn
  record per agent and iteration and with its completion timestamp set. A turn whose
  \<open>executeAgent\<close> fails appends the record with the error message of that failure, leaves
  the current message as it is, and the loop goes on with the state after the failure.
\<close>

theorem collaborate_failure_isolation:
  "length (conversation (fst (collaborateAgents E uid agentIds g iterations s)))
     = length agentIds * nat iterations
   \<and> completed (fst (collaborateAgents E uid agentIds g iterations s)) \<noteq> None
   \<and> (executeAgent E agentId cur None s = (Inl e, s1) \<longrightarrow>
        collab_turn E i agentIds agentId (conv, cur, s)
          = (conv @ [\<lparr>iteration = i + 1, timestamp = clock E (ticks s1),
                      outcome = Failed agentId (message_of e)\<rparr>],
             cur, s1\<lparr>ticks := Suc (ticks s1)\<rparr>))"
proof (intro conjI impI)
  let ?st = "([], initial_message g, s\<lparr>ticks := Suc (ticks s)\<rparr>)"
  have "length (fst (collab_loop E agentIds iterations 0 ?st)) = length agentIds * nat iterations"
    by (simp add: collab_loop_length)
  then show "length (conversation (fst (collaborateAgents E uid agentIds g iterations s)))
     = length agentIds * nat iterations"
    by (auto simp: collaborateAgents_def Date_now_def Let_def split: prod.splits)
  show "completed (fst (collaborateAgents E uid agentIds g iterations s)) \<noteq> None"
    by (simp add: collaborateAgents_def Date_now_def Let_def split: prod.splits)
next
  assume "executeAgent E agentId cur None s = (Inl e, s1)"
  then show "collab_turn E i agentIds agentId (conv, cur, s)
          = (conv @ [\<lparr>iteration = i + 1, timestamp = clock E (ticks s1),
                      outcome = Failed agentId (message_of e)\<rparr>],
             cur, s1\<lparr>ticks := Suc (ticks s1)\<rparr>)"
    by (simp add: collab_turn_def Date_now_def)
qed

text \<open>
  Three agents, the second always failing, two iterations: six records, the second and
  the fifth carrying the error message.
\<close>

theorem collaborate_failure_isolation_witness:
  "fst (executeAgent demo_env ''a2'' (initial_message ''ship'') None (demo_state 60))
     = Inl (Error ''Anthropic API error: 529 Overloaded'')
   \<and> map outcome (fst (collab_turn demo_env 0 [''a1'', ''a2'', ''a3''] ''a2''
                          ([], initial_message ''ship'', demo_state 60)))
     = [Failed ''a2'' ''Anthropic API error: 529 Overloaded'']
   \<and> length (conversation (fst (collaborateAgents demo_env ''run'' [''a1'', ''a2'', ''a3'']
                                   ''ship'' 2 (demo_state 60)))) = 6
   \<and> map outcome (conversation (fst (collaborateAgents demo_env ''run'' [''a1'', ''a2'', ''a3'']
                                        ''ship'' 2 (demo_state 60))))
     = [Responded \<lparr>sum_id = ''a1'', sum_name = ''Ada'', sum_role = ''Assistant'',
                    sum_provider = ''openai''\<rparr> ''fine'' [(''total_tokens'', 7)],
        Failed ''a2'' ''Anthropic API error: 529 Overloaded'',
        Responded \<lparr>sum_id = ''a3'', sum_name = ''Cy'', sum_role = ''Assistant'',
                    sum_provider = ''openai''\<rparr> ''fine'' [(''total_tokens'', 7)],
        Responded \<lparr>sum_id = ''a1'', sum_name = ''Ada'', sum_role = ''Assistant'',
                    sum_provider = ''openai''\<rparr> ''fine'' [(''total_tokens'', 7)],
        Failed ''a2'' ''Anthropic API error: 529 Overloaded'',
        Responded \<lparr>sum_id = ''a3'', sum_name = ''Cy'', sum_role = ''Assistant'',
                    sum_provider = ''openai''\<rparr> ''fine'' [(''total_tokens'', 7)]]
   \<and> completed (fst (collaborateAgents demo_env ''run'' [''a1'', ''a2'', ''a3'']
                        ''ship'' 2 (demo_state 60))) \<noteq> None"
proof -
  let ?x = "executeAgent demo_env ''a2'' (initial_message ''ship'') None (demo_state 60)"
  have x1: "fst ?x = Inl (Error ''Anthropic API error: 529 Overloaded'')"
    by code_simp
  then have x: "?x = (Inl (Error ''Anthropic API error: 529 Overloaded''), snd ?x)"
    by (simp add: prod_eq_iff)
  note iso = collaborate_failure_isolation [where E = demo_env and uid = "''run''"
      and agentIds = "[''a1'', ''a2'', ''a3'']" and g = "''ship''" and iterations = 2
      and s = "demo_state 60" and agentId = "''a2''" and cur = "initial_message ''ship''"
      and e = "Error ''Anthropic API error: 529 Overloaded''" and ?s1.0 = "snd ?x"
      and i = 0 and conv = "[]"]
  from iso x have "collab_turn demo_env 0 [''a1'', ''a2'', ''a3''] ''a2''
                     ([], initial_message ''ship'', demo_state 60)
      = ([] @ [\<lparr>iteration = 0 + 1, timestamp = clock demo_env (ticks (snd ?x)),
                 outcome = Failed ''a2'' (message_of (Error ''Anthropic API error: 529 Overloaded''))\<rparr>],
         initial_message ''ship'', (snd ?x)\<lparr>ticks := Suc (ticks (snd ?x))\<rparr>)"
    by blast
  then have turn: "map outcome (fst (collab_turn demo_env 0 [''a1'', ''a2'', ''a3''] ''a2''
                          ([], initial_message ''ship'', demo_state 60)))
     = [Failed ''a2'' ''Anthropic API error: 529 Overloaded'']"
    by simp
  have len: "length (conversation (fst (collaborateAgents demo_env ''run'' [''a1'', ''a2'', ''a3'']
                                   ''ship'' 2 (demo_state 60)))) = 6"
    using iso by simp
  have outs: "map outcome (conversation (fst (collaborateAgents demo_env ''run'' [''a1'', ''a2'', ''a3'']
                                        ''ship'' 2 (demo_state 60))))
     = [Responded \<lparr>sum_id = ''a1'', sum_name = ''Ada'', sum_role = ''Assistant'',
                    sum_provider = ''openai''\<rparr> ''fine'' [(''total_tokens'', 7)],
        Failed ''a2'' ''Anthropic API error: 529 Overloaded'',
        Responded \<lparr>sum_id = ''a3'', sum_name = ''Cy'', sum_role = ''Assistant'',
                    sum_provider = ''openai''\<rparr> ''fine'' [(''total_tokens'', 7)],
        Responded \<lparr>sum_id = ''a1'', sum_name = ''Ada'', sum_role = ''Assistant'',
                    sum_provider = ''openai''\<rparr> ''fine'' [(''total_tokens'', 7)],
        Failed ''a2'' ''Anthropic API error: 529 Overloaded'',
        Responded \<lparr>sum_id = ''a3'', sum_name = ''Cy'', sum_role = ''Assistant'',
                    sum_provider = ''openai''\<rparr> ''fine'' [(''total_tokens'', 7)]]"
    by code_simp
  have fin: "completed (fst (collaborateAgents demo_env ''run'' [''a1'', ''a2'', ''a3'']
                        ''ship'' 2 (demo_state 60))) \<noteq> None"
    using iso by blast
  from x1 turn len outs fin show ?thesis
    by (intro conjI)
qed

subsection \<open>The prompt handed from turn to turn\<close>







end
